theory Spec2Isabelle
  imports Main "HOL-Library.Word" "HOL-Library.Sublist"
begin

section \<open>JavaScript strings\<close>

text \<open>
  A JavaScript string is a sequence of UTF-16 code units: \<^verbatim>\<open>s.length\<close> counts code
  units and \<^verbatim>\<open>s.slice\<close> cuts between them. The ASCII literals of the source are
  written \<open>js ''...''\<close>.
\<close>

type_synonym jschar = "16 word"
type_synonym jsstring = "jschar list"

definition js :: "string \<Rightarrow> jsstring" where
  "js s = map of_char s"

text \<open>
  \<^verbatim>\<open>String.prototype.trim\<close> strips the code units of ECMAScript's WhiteSpace and
  LineTerminator productions from both ends: TAB, LF, VT, FF, CR, SP, NBSP, U+1680,
  U+2000 to U+200A, U+2028, U+2029, U+202F, U+205F, U+3000 and U+FEFF.
\<close>

definition isWhiteSpace :: "jschar \<Rightarrow> bool" where
  "isWhiteSpace c \<longleftrightarrow>
     (0x9 \<le> c \<and> c \<le> 0xD) \<or> c = 0x20 \<or> c = 0xA0 \<or> c = 0x1680 \<or>
     (0x2000 \<le> c \<and> c \<le> 0x200A) \<or> c = 0x2028 \<or> c = 0x2029 \<or> c = 0x202F \<or>
     c = 0x205F \<or> c = 0x3000 \<or> c = 0xFEFF"

definition trim :: "jsstring \<Rightarrow> jsstring" where
  "trim s = rev (dropWhile isWhiteSpace (rev (dropWhile isWhiteSpace s)))"

text \<open>\<^verbatim>\<open>parts.join(sep)\<close> on an array of strings.\<close>

fun join :: "jsstring \<Rightarrow> jsstring list \<Rightarrow> jsstring" where
  "join sep [] = []"
| "join sep [x] = x"
| "join sep (x # y # ys) = x @ sep @ join sep (y # ys)"

section \<open>Form answers and prompt composition (src/app/page.tsx)\<close>

datatype Category = Education | Cooking | Vlog | Gaming | Tech | Other
datatype Style = Minimal | Bold | Fun | Professional | Custom
datatype Vibe = Bright | Dark | Pastel | Neon | Custom

text \<open>The three types are unions of string literals; these are the strings.\<close>

fun Category_str :: "Category \<Rightarrow> jsstring" where
  "Category_str Education = js ''Education''"
| "Category_str Cooking = js ''Cooking''"
| "Category_str Vlog = js ''Vlog''"
| "Category_str Gaming = js ''Gaming''"
| "Category_str Tech = js ''Tech''"
| "Category_str Other = js ''Other''"

fun Style_str :: "Style \<Rightarrow> jsstring" where
  "Style_str Minimal = js ''Minimal''"
| "Style_str Bold = js ''Bold''"
| "Style_str Fun = js ''Fun''"
| "Style_str Professional = js ''Professional''"
| "Style_str Style.Custom = js ''Custom''"

fun Vibe_str :: "Vibe \<Rightarrow> jsstring" where
  "Vibe_str Bright = js ''Bright''"
| "Vibe_str Dark = js ''Dark''"
| "Vibe_str Pastel = js ''Pastel''"
| "Vibe_str Neon = js ''Neon''"
| "Vibe_str Vibe.Custom = js ''Custom''"

record FormAnswers =
  category :: Category
  customCategory :: jsstring
  style :: Style
  customStyle :: jsstring
  textOverlay :: jsstring
  vibe :: Vibe
  customVibe :: jsstring

definition DEFAULT_ANSWERS :: FormAnswers where
  "DEFAULT_ANSWERS =
     \<lparr>category = Tech, customCategory = [], style = Minimal, customStyle = [],
      textOverlay = [], vibe = Bright, customVibe = []\<rparr>"

text \<open>
  The local constants of \<^verbatim>\<open>composePrompt\<close>. \<^verbatim>\<open>x || "Other"\<close> on a string takes
  the right operand exactly when \<open>x\<close> is the empty string.
\<close>

definition categoryText :: "FormAnswers \<Rightarrow> jsstring" where
  "categoryText answers =
     (if category answers = Other
      then (if customCategory answers = [] then js ''Other'' else customCategory answers)
      else Category_str (category answers))"

definition styleText :: "FormAnswers \<Rightarrow> jsstring" where
  "styleText answers =
     (if style answers = Style.Custom
      then (if customStyle answers = [] then js ''Custom'' else customStyle answers)
      else Style_str (style answers))"

definition vibeText :: "FormAnswers \<Rightarrow> jsstring" where
  "vibeText answers =
     (if vibe answers = Vibe.Custom
      then (if customVibe answers = [] then js ''Custom'' else customVibe answers)
      else Vibe_str (vibe answers))"

definition overlay :: "FormAnswers \<Rightarrow> jsstring" where
  "overlay answers =
     (if textOverlay answers \<noteq> [] \<and> length (trim (textOverlay answers)) > 0
      then js ''Include text overlay: \"'' @ trim (textOverlay answers) @ js ''\".''
      else js ''No text overlay.'')"

text \<open>The array \<^verbatim>\<open>parts\<close> as it stands when \<^verbatim>\<open>composePrompt\<close> joins it.\<close>

definition parts :: "FormAnswers \<Rightarrow> bool \<Rightarrow> jsstring list" where
  "parts answers hasImage =
     [js ''Category: '' @ categoryText answers @ js ''.'',
      js ''Style: '' @ styleText answers @ js ''.'',
      js ''Colors/Vibe: '' @ vibeText answers @ js ''.'',
      overlay answers]
     @ (if hasImage then [js ''Use the uploaded reference image as visual guidance.''] else [])
     @ [js ''16:9 thumbnail composition, high contrast, no watermarks, suitable for social/YouTube.'']"

definition composePrompt :: "FormAnswers \<Rightarrow> bool \<Rightarrow> jsstring" where
  "composePrompt answers hasImage = join (js '' '') (parts answers hasImage)"

section \<open>The generate proxy (src/unnamed/part_000)\<close>

text \<open>
  The response of the external API, as far as the handler reads it. Every member the
  handler reaches through \<^verbatim>\<open>?.\<close> or tests may be absent.
\<close>

record Blob =
  data :: "jsstring option"
  blob_mimeType :: "jsstring option"

record Part =
  part_text :: "jsstring option"
  inlineData :: "Blob option"

record Content =
  content_parts :: "Part list option"










section \<open>The client: requests, responses and state (src/app/page.tsx)\<close>

datatype Route = ApiGenerate | ApiEdit

fun Route_str :: "Route \<Rightarrow> jsstring" where
  "Route_str ApiGenerate = js ''/api/generate''"
| "Route_str ApiEdit = js ''/api/edit''"

text \<open>
  The two payload objects \<^verbatim>\<open>handleSubmit\<close> builds: \<^verbatim>\<open>{prompt}\<close> for the generate
  route and \<^verbatim>\<open>{prompt, base64Image, mimeType}\<close> for the edit route.
\<close>

datatype Payload =
    GeneratePayload (payload_prompt: jsstring)
  | EditPayload (payload_prompt: jsstring) (base64Image: jsstring) (mimeType: jsstring)

record LastRequest =
  route :: Route
  payload :: Payload

text \<open>
  \<^verbatim>\<open>JSON.stringify\<close> on these payloads. A string is quoted as ECMAScript's
  QuoteJSONString does: the short escapes for backspace, tab, line feed, form feed,
  carriage return, the double quote and the backslash; a four-digit lower-case
  \<^verbatim>\<open>\u\<close> escape for the other code units below U+0020 and for a surrogate that is
  not part of a pair; every other code unit as it is.
\<close>

definition hexDigit :: "nat \<Rightarrow> jschar" where
  "hexDigit d = (if d < 10 then of_nat (48 + d) else of_nat (87 + d))"

definition unicodeEscape :: "jschar \<Rightarrow> jsstring" where
  "unicodeEscape c =
     [0x5C, 0x75] @ map (\<lambda>i. hexDigit (unat (drop_bit i c) mod 16)) [12, 8, 4, 0]"

definition isLeadSurrogate :: "jschar \<Rightarrow> bool" where
  "isLeadSurrogate c \<longleftrightarrow> 0xD800 \<le> c \<and> c \<le> 0xDBFF"

definition isTrailSurrogate :: "jschar \<Rightarrow> bool" where
  "isTrailSurrogate c \<longleftrightarrow> 0xDC00 \<le> c \<and> c \<le> 0xDFFF"

definition escapeUnit :: "jschar \<Rightarrow> jsstring" where
  "escapeUnit c =
     (if c = 0x08 then [0x5C, 0x62]
      else if c = 0x09 then [0x5C, 0x74]
      else if c = 0x0A then [0x5C, 0x6E]
      else if c = 0x0C then [0x5C, 0x66]
      else if c = 0x0D then [0x5C, 0x72]
      else if c = 0x22 then [0x5C, 0x22]
      else if c = 0x5C then [0x5C, 0x5C]
      else if c < 0x20 \<or> isLeadSurrogate c \<or> isTrailSurrogate c then unicodeEscape c
      else [c])"

fun quoteBody :: "jsstring \<Rightarrow> jsstring" where
  "quoteBody [] = []"
| "quoteBody [c] = escapeUnit c"
| "quoteBody (c # d # cs) =
     (if isLeadSurrogate c \<and> isTrailSurrogate d then c # d # quoteBody cs
      else escapeUnit c @ quoteBody (d # cs))"

definition QuoteJSONString :: "jsstring \<Rightarrow> jsstring" where
  "QuoteJSONString s = [0x22] @ quoteBody s @ [0x22]"

fun JSON_stringify :: "Payload \<Rightarrow> jsstring" where
  "JSON_stringify (GeneratePayload p) =
     js ''{\"prompt\":'' @ QuoteJSONString p @ js ''}''"
| "JSON_stringify (EditPayload p b m) =
     js ''{\"prompt\":'' @ QuoteJSONString p @ js '',\"base64Image\":'' @ QuoteJSONString b
     @ js '',\"mimeType\":'' @ QuoteJSONString m @ js ''}''"

text \<open>
  What \<^verbatim>\<open>fetch(route, {method: "POST", headers: {"Content-Type":
  "application/json"}, body: JSON.stringify(payload)})\<close> sends.
\<close>

record Request =
  req_url :: jsstring
  req_method :: jsstring
  req_headers :: "(jsstring \<times> jsstring) list"
  req_body :: jsstring

definition post_json :: "Route \<Rightarrow> Payload \<Rightarrow> Request" where
  "post_json r p =
     \<lparr>req_url = Route_str r, req_method = js ''POST'',
      req_headers = [(js ''Content-Type'', js ''application/json'')],
      req_body = JSON_stringify p\<rparr>"

text \<open>
  What the client reads of a response: \<^verbatim>\<open>res.ok\<close>; \<^verbatim>\<open>res.text()\<close>, which
  returns the body text or throws (\<open>Inl\<close>); \<^verbatim>\<open>res.json()\<close>, which throws an error
  with a message (\<open>Inl\<close>) or returns a value whose \<^verbatim>\<open>data_url\<close> member, a string, is
  present or not (the source casts the value to \<^verbatim>\<open>{data_url: string}\<close>).
\<close>

record Response =
  res_ok :: bool
  res_text :: "unit + jsstring"
  res_json :: "jsstring + jsstring option"

text \<open>
  The environment of one handler run: the network (\<^verbatim>\<open>fetch\<close> rejects with an error
  carrying a message, \<open>Inl\<close>, or resolves to a response), the \<^verbatim>\<open>FileReader\<close>
  (\<^verbatim>\<open>onerror\<close>, \<open>Inl\<close>, or \<^verbatim>\<open>onload\<close> with the data URL it read), the clock
  \<^verbatim>\<open>Date.now()\<close>, and whether \<^verbatim>\<open>localStorage.setItem\<close> throws.
\<close>

record Env =
  fetch :: "Request \<Rightarrow> jsstring + Response"
  readAsDataURL :: "unit + jsstring"
  now :: int
  setItem_throws :: bool

record File =
  file_type :: jsstring

record HistoryItem =
  data_url :: jsstring
  prompt :: jsstring
  answers :: FormAnswers
  timestamp :: int

text \<open>
  The hooks of \<^verbatim>\<open>Page\<close> the handlers read and write, each under its own name with
  the prefix \<open>st_\<close>; \<open>st_lastRequest\<close> is \<^verbatim>\<open>lastRequestRef.current\<close> and
  \<open>thumbHistory\<close> the array last read or written under that key of
  \<^verbatim>\<open>localStorage\<close> (\<open>None\<close>: there is none).
\<close>

record PageState =
  st_answers :: FormAnswers
  st_prompt :: jsstring
  st_promptTouched :: bool
  st_uploadFile :: "File option"
  st_imageUrl :: jsstring
  st_loading :: bool
  st_error :: jsstring
  st_history :: "HistoryItem list"
  st_lastRequest :: "LastRequest option"
  thumbHistory :: "HistoryItem list option"

section \<open>The client: helpers and handlers (src/app/page.tsx)\<close>

definition safeReadText :: "Response \<Rightarrow> jsstring" where
  "safeReadText res = (case res_text res of Inl _ \<Rightarrow> [] | Inr t \<Rightarrow> t)"

text \<open>\<^verbatim>\<open>s.length > n ? s.slice(0, n) + "\<close>U+2026\<^verbatim>\<open>" : s\<close>, for \<open>n \<ge> 0\<close>.\<close>

definition truncate :: "jsstring \<Rightarrow> nat \<Rightarrow> jsstring" where
  "truncate s n = (if length s > n then take n s @ [0x2026] else s)"

text \<open>\<^verbatim>\<open>dataUrl.split(",")\<close>: the pieces between the commas, at least one.\<close>

fun split_comma :: "jsstring \<Rightarrow> jsstring list" where
  "split_comma [] = [[]]"
| "split_comma (c # cs) =
     (if c = 0x2C then [] # split_comma cs
      else (case split_comma cs of
              w # ws \<Rightarrow> (c # w) # ws
            | [] \<Rightarrow> [[c]]))"

text \<open>
  \<^verbatim>\<open>fileToBase64\<close>: \<open>Inl\<close> is the rejection, with its message; \<open>Inr\<close> is
  \<^verbatim>\<open>{base64, mime}\<close>. \<^verbatim>\<open>dataUrl.split(",")[1] || ""\<close> is the second piece, or
  the empty string when there is none.
\<close>

definition fileToBase64 :: "File \<Rightarrow> unit + jsstring \<Rightarrow> jsstring + (jsstring \<times> jsstring)" where
  "fileToBase64 file reader =
     (let mime = (if file_type file = [] then js ''image/png'' else file_type file) in
      case reader of
        Inl _ \<Rightarrow> Inl (js ''Failed to read file'')
      | Inr dataUrl \<Rightarrow>
          Inr (case split_comma dataUrl of _ # b # _ \<Rightarrow> b | _ \<Rightarrow> [], mime))"

text \<open>
  The exchange the three request sites of the source share, textually repeated there
  with three labels (\<^verbatim>\<open>Edit request failed. \<close>, \<^verbatim>\<open>Generate request failed. \<close>,
  \<^verbatim>\<open>Regenerate failed. \<close>): \<open>Inl\<close> is the message of the error thrown into the
  handler's \<^verbatim>\<open>catch\<close>, \<open>Inr\<close> the \<^verbatim>\<open>data_url\<close> received.
\<close>

definition exchange :: "jsstring \<Rightarrow> Env \<Rightarrow> Request \<Rightarrow> jsstring + jsstring" where
  "exchange label env req =
     (case fetch env req of
        Inl msg \<Rightarrow> Inl msg
      | Inr res \<Rightarrow>
          if \<not> res_ok res then
            (let details = safeReadText res in
             Inl (label @ (if details \<noteq> [] then js ''Details: '' @ truncate details 300 else [])))
          else
            (case res_json res of
               Inl msg \<Rightarrow> Inl msg
             | Inr None \<Rightarrow> Inl (js ''Invalid response: missing data_url'')
             | Inr (Some u) \<Rightarrow>
                 if u = [] then Inl (js ''Invalid response: missing data_url'') else Inr u))"

definition derivedPrompt :: "PageState \<Rightarrow> jsstring" where
  "derivedPrompt s = composePrompt (st_answers s) (st_uploadFile s \<noteq> None)"

text \<open>
  The state once the mount effects have run: the history is the array parsed from
  \<^verbatim>\<open>localStorage\<close> (\<open>None\<close>: no entry, or one that does not parse) and the
  prompt is prefilled.
\<close>

definition mounted :: "HistoryItem list option \<Rightarrow> PageState" where
  "mounted stored =
     \<lparr>st_answers = DEFAULT_ANSWERS, st_prompt = composePrompt DEFAULT_ANSWERS False,
      st_promptTouched = False, st_uploadFile = None, st_imageUrl = [], st_loading = False,
      st_error = [], st_history = (case stored of None \<Rightarrow> [] | Some h \<Rightarrow> h),
      st_lastRequest = None, thumbHistory = stored\<rparr>"

text \<open>
  The effect that keeps the prompt synced with the answers: it runs when
  \<^verbatim>\<open>derivedPrompt\<close> has changed, and writes the prompt unless the user has edited it.
\<close>

definition syncPrompt :: "PageState \<Rightarrow> PageState \<Rightarrow> PageState" where
  "syncPrompt old s =
     (if derivedPrompt s \<noteq> derivedPrompt old \<and> \<not> st_promptTouched s
      then s\<lparr>st_prompt := derivedPrompt s\<rparr> else s)"

text \<open>\<^verbatim>\<open>onAnswersChange(key, value)\<close>: one constructor for each key.\<close>

datatype AnswerChange =
    Set_category Category
  | Set_customCategory jsstring
  | Set_style Style
  | Set_customStyle jsstring
  | Set_textOverlay jsstring
  | Set_vibe Vibe
  | Set_customVibe jsstring

fun setKey :: "AnswerChange \<Rightarrow> FormAnswers \<Rightarrow> FormAnswers" where
  "setKey (Set_category v) prev = prev\<lparr>category := v\<rparr>"
| "setKey (Set_customCategory v) prev = prev\<lparr>customCategory := v\<rparr>"
| "setKey (Set_style v) prev = prev\<lparr>style := v\<rparr>"
| "setKey (Set_customStyle v) prev = prev\<lparr>customStyle := v\<rparr>"
| "setKey (Set_textOverlay v) prev = prev\<lparr>textOverlay := v\<rparr>"
| "setKey (Set_vibe v) prev = prev\<lparr>vibe := v\<rparr>"
| "setKey (Set_customVibe v) prev = prev\<lparr>customVibe := v\<rparr>"

definition onAnswersChange :: "AnswerChange \<Rightarrow> PageState \<Rightarrow> PageState" where
  "onAnswersChange kv s = syncPrompt s (s\<lparr>st_answers := setKey kv (st_answers s)\<rparr>)"

text \<open>The \<^verbatim>\<open>onChange\<close> of the prompt field: the typed text, and the prompt is touched.\<close>

definition onPromptChange :: "jsstring \<Rightarrow> PageState \<Rightarrow> PageState" where
  "onPromptChange v s = s\<lparr>st_prompt := v, st_promptTouched := True\<rparr>"

text \<open>
  \<^verbatim>\<open>addToHistory\<close>: the item goes to the front; the new array is written to
  \<^verbatim>\<open>localStorage\<close> unless \<^verbatim>\<open>setItem\<close> throws, which is ignored. (The scroll of
  the history row touches no state.)
\<close>

definition addToHistory :: "Env \<Rightarrow> HistoryItem \<Rightarrow> PageState \<Rightarrow> PageState" where
  "addToHistory env item s =
     (let next = item # st_history s in
      s\<lparr>st_history := next,
        thumbHistory := (if setItem_throws env then thumbHistory s else Some next)\<rparr>)"

text \<open>
  \<^verbatim>\<open>handleSubmit\<close> and \<^verbatim>\<open>handleRegenerate\<close> return the state when the handler has
  finished (so \<^verbatim>\<open>loading\<close> is false again wherever it was set) and the requests
  they sent, in order. A handler reads \<^verbatim>\<open>prompt\<close>, \<^verbatim>\<open>derivedPrompt\<close>,
  \<^verbatim>\<open>uploadFile\<close> and \<^verbatim>\<open>answers\<close> as they were in the render that created it, that
  is in the state \<open>s\<close> it is called in; every control of the page is disabled while
  \<^verbatim>\<open>loading\<close> is true, so nothing else writes the state during a run.
  \<^verbatim>\<open>err?.message || "..."\<close> takes the fallback when the message is empty.
\<close>

definition settle ::
  "jsstring \<Rightarrow> Env \<Rightarrow> jsstring \<Rightarrow> FormAnswers \<Rightarrow> jsstring + jsstring \<Rightarrow> PageState \<Rightarrow> PageState" where
  "settle fallback env p a outcome s =
     (case outcome of
        Inr u \<Rightarrow>
          (addToHistory env \<lparr>data_url = u, prompt = p, answers = a, timestamp = now env\<rparr>
             (s\<lparr>st_imageUrl := u\<rparr>))\<lparr>st_loading := False\<rparr>
      | Inl msg \<Rightarrow>
          s\<lparr>st_error := (if msg = [] then fallback else msg), st_loading := False\<rparr>)"

definition handleSubmit :: "Env \<Rightarrow> PageState \<Rightarrow> PageState \<times> Request list" where
  "handleSubmit env s =
     (let cleared = s\<lparr>st_error := []\<rparr>;
          activePrompt = trim (if st_prompt s = [] then derivedPrompt s else st_prompt s);
          fallback = js ''Something went wrong while processing your request.''
      in
      if activePrompt = [] then
        (cleared\<lparr>st_error := js ''Please provide a prompt or complete the guided answers.''\<rparr>,
         [])
      else
        (case st_uploadFile s of
           Some file \<Rightarrow>
             (case fileToBase64 file (readAsDataURL env) of
                Inl msg \<Rightarrow> (settle fallback env activePrompt (st_answers s) (Inl msg) cleared, [])
              | Inr (base64, mime) \<Rightarrow>
                  (let payload = EditPayload activePrompt base64 mime;
                       remembered =
                         cleared\<lparr>st_lastRequest := Some \<lparr>route = ApiEdit, payload = payload\<rparr>\<rparr>;
                       req = post_json ApiEdit payload
                   in (settle fallback env activePrompt (st_answers s)
                         (exchange (js ''Edit request failed. '') env req) remembered, [req])))
         | None \<Rightarrow>
             (let payload = GeneratePayload activePrompt;
                  remembered =
                    cleared\<lparr>st_lastRequest := Some \<lparr>route = ApiGenerate, payload = payload\<rparr>\<rparr>;
                  req = post_json ApiGenerate payload
              in (settle fallback env activePrompt (st_answers s)
                    (exchange (js ''Generate request failed. '') env req) remembered, [req]))))"

definition handleRegenerate :: "Env \<Rightarrow> PageState \<Rightarrow> PageState \<times> Request list" where
  "handleRegenerate env s =
     (case st_lastRequest s of
        None \<Rightarrow> (s, [])
      | Some remembered \<Rightarrow>
          (let cleared = s\<lparr>st_error := []\<rparr>;
               req = post_json (route remembered) (payload remembered)
           in (settle (js ''Could not regenerate the image.'') env
                 (payload_prompt (payload remembered)) (st_answers s)
                 (exchange (js ''Regenerate failed. '') env req) cleared, [req])))"

section \<open>Sample inputs\<close>




definition answering :: "jsstring + Response \<Rightarrow> Env" where
  "answering outcome =
     \<lparr>fetch = (\<lambda>req. outcome), readAsDataURL = Inr (js ''data:image/png;base64,QUJD''),
      now = 1700000000000, setItem_throws = False\<rparr>"

definition image_response :: Response where
  "image_response =
     \<lparr>res_ok = True, res_text = Inr [], res_json = Inr (Some (js ''data:image/png;base64,QUJD''))\<rparr>"

definition failure_response :: "jsstring \<Rightarrow> Response" where
  "failure_response details =
     \<lparr>res_ok = False, res_text = Inr details, res_json = Inl (js ''Unexpected token'')\<rparr>"

section \<open>Prompt composition: properties\<close>

lemma trim_Nil: "trim [] = []"
  by (simp add: trim_def)

lemma trim_keeps:
  assumes "s \<noteq> []" "\<not> isWhiteSpace (hd s)" "\<not> isWhiteSpace (last s)"
  shows "trim s = s"
proof -
  from assms(1,2) have "dropWhile isWhiteSpace s = s"
    by (cases s) simp_all
  moreover from assms(1,3) have "dropWhile isWhiteSpace (rev s) = rev s"
    by (cases "rev s") (simp_all add: last_rev [symmetric])
  ultimately show ?thesis
    by (simp add: trim_def)
qed

lemma trim_a_cat: "trim (js ''a cat'') = js ''a cat''"
  by (simp add: trim_keeps isWhiteSpace_def js_def)

lemma trim_blank: "trim (js ''  '') = []"
  by (simp add: trim_def isWhiteSpace_def js_def)

lemma join_append_last: "xs \<noteq> [] \<Longrightarrow> join sep (xs @ [y]) = join sep xs @ sep @ y"
  by (induction sep xs rule: join.induct) auto

text \<open>A composed prompt starts with the C of \<^verbatim>\<open>Category\<close> and ends with a full stop.\<close>

lemma composePrompt_ends: "\<exists>mid. composePrompt a h = 0x43 # mid @ [0x2E]"
  by (cases h) (simp_all add: composePrompt_def parts_def js_def)

lemma trim_composePrompt: "trim (composePrompt a h) = composePrompt a h"
proof -
  obtain mid where "composePrompt a h = 0x43 # mid @ [0x2E]"
    using composePrompt_ends by blast
  then show ?thesis
    by (simp add: trim_keeps isWhiteSpace_def)
qed

text \<open>The composed prompt, clause by clause: the clauses of \<open>parts\<close> with single blanks between.\<close>

lemma composePrompt_clauses:
  "composePrompt a h =
     js ''Category: '' @ categoryText a @ js ''. Style: '' @ styleText a
     @ js ''. Colors/Vibe: '' @ vibeText a @ js ''. '' @ overlay a
     @ (if h then js '' Use the uploaded reference image as visual guidance.'' else [])
     @ js '' 16:9 thumbnail composition, high contrast, no watermarks, suitable for social/YouTube.''"
  by (cases h) (simp_all add: composePrompt_def parts_def js_def)

lemma overlay_trimmed:
  "overlay a =
     (if trim (textOverlay a) \<noteq> []
      then js ''Include text overlay: \"'' @ trim (textOverlay a) @ js ''\".''
      else js ''No text overlay.'')"
  by (auto simp: overlay_def trim_Nil)

text \<open>
  C7: for the default answers (Tech, Minimal, Bright, every free-text field empty) and
  no upload, \<open>composePrompt\<close> returns exactly the sentence of the specification.
\<close>

theorem composePrompt_default:
  "composePrompt
     \<lparr>category = Tech, customCategory = [], style = Minimal, customStyle = [],
      textOverlay = [], vibe = Bright, customVibe = []\<rparr> False =
   js ''Category: Tech. Style: Minimal. Colors/Vibe: Bright. No text overlay. 16:9 thumbnail composition, high contrast, no watermarks, suitable for social/YouTube.''"
  by (simp add: composePrompt_def parts_def categoryText_def styleText_def vibeText_def
      overlay_def js_def)

text \<open>
  C8: the prompt \<open>composePrompt\<close> returns is the category, style and vibe clauses,
  then the text-overlay clause, then the reference-image clause when there is an
  image, then the closing clause, with single blanks between. The text-overlay clause
  (the fourth element of \<open>parts\<close>) is
  \<^verbatim>\<open>Include text overlay: "<trimmed overlay text>".\<close> when the overlay field trims to
  a non-empty string, and exactly \<^verbatim>\<open>No text overlay.\<close> otherwise.
\<close>

theorem overlay_clause:
  "composePrompt a hasImage =
     js ''Category: '' @ categoryText a @ js ''. Style: '' @ styleText a
     @ js ''. Colors/Vibe: '' @ vibeText a @ js ''. ''
     @ (if trim (textOverlay a) \<noteq> []
        then js ''Include text overlay: \"'' @ trim (textOverlay a) @ js ''\".''
        else js ''No text overlay.'')
     @ (if hasImage then js '' Use the uploaded reference image as visual guidance.'' else [])
     @ js '' 16:9 thumbnail composition, high contrast, no watermarks, suitable for social/YouTube.'' \<and>
   parts a hasImage ! 3 =
     (if trim (textOverlay a) \<noteq> []
      then js ''Include text overlay: \"'' @ trim (textOverlay a) @ js ''\".''
      else js ''No text overlay.'')"
proof
  show "composePrompt a hasImage =
     js ''Category: '' @ categoryText a @ js ''. Style: '' @ styleText a
     @ js ''. Colors/Vibe: '' @ vibeText a @ js ''. ''
     @ (if trim (textOverlay a) \<noteq> []
        then js ''Include text overlay: \"'' @ trim (textOverlay a) @ js ''\".''
        else js ''No text overlay.'')
     @ (if hasImage then js '' Use the uploaded reference image as visual guidance.'' else [])
     @ js '' 16:9 thumbnail composition, high contrast, no watermarks, suitable for social/YouTube.''"
    unfolding composePrompt_clauses [of a hasImage] overlay_trimmed [of a] ..
  show "parts a hasImage ! 3 =
     (if trim (textOverlay a) \<noteq> []
      then js ''Include text overlay: \"'' @ trim (textOverlay a) @ js ''\".''
      else js ''No text overlay.'')"
    using overlay_trimmed [of a] by (simp add: parts_def)
qed

text \<open>
  The example of the specification, with blanks around the text, and a blank overlay
  with a reference image.
\<close>

theorem overlay_clause_witness:
  "composePrompt (DEFAULT_ANSWERS\<lparr>textOverlay := js '' 5 Tips ''\<rparr>) False =
     js ''Category: Tech. Style: Minimal. Colors/Vibe: Bright. Include text overlay: \"5 Tips\". 16:9 thumbnail composition, high contrast, no watermarks, suitable for social/YouTube.'' \<and>
   composePrompt (DEFAULT_ANSWERS\<lparr>textOverlay := js ''  ''\<rparr>) True =
     js ''Category: Tech. Style: Minimal. Colors/Vibe: Bright. No text overlay. Use the uploaded reference image as visual guidance. 16:9 thumbnail composition, high contrast, no watermarks, suitable for social/YouTube.'' \<and>
   parts (DEFAULT_ANSWERS\<lparr>textOverlay := js '' 5 Tips ''\<rparr>) False ! 3
     = js ''Include text overlay: \"5 Tips\".'' \<and>
   parts (DEFAULT_ANSWERS\<lparr>textOverlay := js ''  ''\<rparr>) True ! 3 = js ''No text overlay.''"
proof -
  have t: "trim (js '' 5 Tips '') = js ''5 Tips''"
    by (simp add: trim_def isWhiteSpace_def js_def)
  have d: "categoryText (DEFAULT_ANSWERS\<lparr>textOverlay := v\<rparr>) = js ''Tech''"
    "styleText (DEFAULT_ANSWERS\<lparr>textOverlay := v\<rparr>) = js ''Minimal''"
    "vibeText (DEFAULT_ANSWERS\<lparr>textOverlay := v\<rparr>) = js ''Bright''"
    "textOverlay (DEFAULT_ANSWERS\<lparr>textOverlay := v\<rparr>) = v" for v
    by (simp_all add: categoryText_def styleText_def vibeText_def DEFAULT_ANSWERS_def)
  show ?thesis
    using overlay_clause [of "DEFAULT_ANSWERS\<lparr>textOverlay := js '' 5 Tips ''\<rparr>" False]
      overlay_clause [of "DEFAULT_ANSWERS\<lparr>textOverlay := js ''  ''\<rparr>" True]
    by (simp add: d t trim_blank) (simp add: js_def)
qed

text \<open>
  C9: whatever the answers and the has-reference-image flag, the composed prompt ends
  with the fixed closing clause.
\<close>

theorem composePrompt_ends_with_guidelines:
  "suffix
     (js ''16:9 thumbnail composition, high contrast, no watermarks, suitable for social/YouTube.'')
     (composePrompt a hasImage)"
proof -
  let ?fixed = "js ''16:9 thumbnail composition, high contrast, no watermarks, suitable for social/YouTube.''"
  obtain xs where xs: "parts a hasImage = xs @ [?fixed]" and ne: "xs \<noteq> []"
    by (cases hasImage) (simp_all add: parts_def)
  have "composePrompt a hasImage = join (js '' '') xs @ js '' '' @ ?fixed"
    unfolding composePrompt_def xs using ne by (rule join_append_last)
  then show ?thesis
    by (simp add: suffix_def)
qed

text \<open>
  C1, as the code has it: when an enum field is set to its escape value (\<^verbatim>\<open>Other\<close>
  or \<^verbatim>\<open>Custom\<close>) and the matching free-text field is the empty string, the clause
  of that field, in \<open>parts\<close> and in the prompt \<open>composePrompt\<close> returns, falls back to
  the escape label.
\<close>

theorem empty_custom_falls_back:
  "(category a = Other \<and> customCategory a = [] \<longrightarrow>
      parts a h ! 0 = js ''Category: Other.'' \<and>
      composePrompt a h =
        js ''Category: Other. Style: '' @ styleText a
        @ js ''. Colors/Vibe: '' @ vibeText a @ js ''. '' @ overlay a
        @ (if h then js '' Use the uploaded reference image as visual guidance.'' else [])
        @ js '' 16:9 thumbnail composition, high contrast, no watermarks, suitable for social/YouTube.'') \<and>
   (style a = Style.Custom \<and> customStyle a = [] \<longrightarrow>
      parts a h ! 1 = js ''Style: Custom.'' \<and>
      composePrompt a h =
        js ''Category: '' @ categoryText a @ js ''. Style: Custom. Colors/Vibe: '' @ vibeText a
        @ js ''. '' @ overlay a
        @ (if h then js '' Use the uploaded reference image as visual guidance.'' else [])
        @ js '' 16:9 thumbnail composition, high contrast, no watermarks, suitable for social/YouTube.'') \<and>
   (vibe a = Vibe.Custom \<and> customVibe a = [] \<longrightarrow>
      parts a h ! 2 = js ''Colors/Vibe: Custom.'' \<and>
      composePrompt a h =
        js ''Category: '' @ categoryText a @ js ''. Style: '' @ styleText a
        @ js ''. Colors/Vibe: Custom. '' @ overlay a
        @ (if h then js '' Use the uploaded reference image as visual guidance.'' else [])
        @ js '' 16:9 thumbnail composition, high contrast, no watermarks, suitable for social/YouTube.'')"
proof (intro conjI impI)
  assume "category a = Other \<and> customCategory a = []"
  then have c: "categoryText a = js ''Other''"
    by (simp add: categoryText_def)
  show "parts a h ! 0 = js ''Category: Other.''"
    by (simp add: parts_def c) (simp add: js_def)
  show "composePrompt a h =
        js ''Category: Other. Style: '' @ styleText a
        @ js ''. Colors/Vibe: '' @ vibeText a @ js ''. '' @ overlay a
        @ (if h then js '' Use the uploaded reference image as visual guidance.'' else [])
        @ js '' 16:9 thumbnail composition, high contrast, no watermarks, suitable for social/YouTube.''"
    unfolding composePrompt_clauses [of a h] c by (simp add: js_def)
next
  assume "style a = Style.Custom \<and> customStyle a = []"
  then have c: "styleText a = js ''Custom''"
    by (simp add: styleText_def)
  show "parts a h ! 1 = js ''Style: Custom.''"
    by (simp add: parts_def c) (simp add: js_def)
  show "composePrompt a h =
        js ''Category: '' @ categoryText a @ js ''. Style: Custom. Colors/Vibe: '' @ vibeText a
        @ js ''. '' @ overlay a
        @ (if h then js '' Use the uploaded reference image as visual guidance.'' else [])
        @ js '' 16:9 thumbnail composition, high contrast, no watermarks, suitable for social/YouTube.''"
    unfolding composePrompt_clauses [of a h] c by (simp add: js_def)
next
  assume "vibe a = Vibe.Custom \<and> customVibe a = []"
  then have c: "vibeText a = js ''Custom''"
    by (simp add: vibeText_def)
  show "parts a h ! 2 = js ''Colors/Vibe: Custom.''"
    by (simp add: parts_def c) (simp add: js_def)
  show "composePrompt a h =
        js ''Category: '' @ categoryText a @ js ''. Style: '' @ styleText a
        @ js ''. Colors/Vibe: Custom. '' @ overlay a
        @ (if h then js '' Use the uploaded reference image as visual guidance.'' else [])
        @ js '' 16:9 thumbnail composition, high contrast, no watermarks, suitable for social/YouTube.''"
    unfolding composePrompt_clauses [of a h] c by (simp add: js_def)
qed

theorem empty_custom_falls_back_witness:
  "composePrompt (DEFAULT_ANSWERS\<lparr>category := Other, style := Style.Custom, vibe := Vibe.Custom\<rparr>) True =
     js ''Category: Other. Style: Custom. Colors/Vibe: Custom. No text overlay. Use the uploaded reference image as visual guidance. 16:9 thumbnail composition, high contrast, no watermarks, suitable for social/YouTube.'' \<and>
   parts (DEFAULT_ANSWERS\<lparr>category := Other, style := Style.Custom, vibe := Vibe.Custom\<rparr>) True ! 0
     = js ''Category: Other.'' \<and>
   parts (DEFAULT_ANSWERS\<lparr>category := Other, style := Style.Custom, vibe := Vibe.Custom\<rparr>) True ! 1
     = js ''Style: Custom.'' \<and>
   parts (DEFAULT_ANSWERS\<lparr>category := Other, style := Style.Custom, vibe := Vibe.Custom\<rparr>) True ! 2
     = js ''Colors/Vibe: Custom.''"
proof -
  let ?a = "DEFAULT_ANSWERS\<lparr>category := Other, style := Style.Custom, vibe := Vibe.Custom\<rparr>"
  have hyp: "category ?a = Other \<and> customCategory ?a = []"
    "style ?a = Style.Custom \<and> customStyle ?a = []"
    "vibe ?a = Vibe.Custom \<and> customVibe ?a = []"
    by (simp_all add: DEFAULT_ANSWERS_def)
  have rest: "styleText ?a = js ''Custom''" "vibeText ?a = js ''Custom''"
    "overlay ?a = js ''No text overlay.''"
    by (simp_all add: styleText_def vibeText_def overlay_def DEFAULT_ANSWERS_def)
  from empty_custom_falls_back [of ?a True] hyp
  have "parts ?a True ! 0 = js ''Category: Other.'' \<and>
      parts ?a True ! 1 = js ''Style: Custom.'' \<and>
      parts ?a True ! 2 = js ''Colors/Vibe: Custom.'' \<and>
      composePrompt ?a True =
        js ''Category: Other. Style: '' @ styleText ?a
        @ js ''. Colors/Vibe: '' @ vibeText ?a @ js ''. '' @ overlay ?a
        @ (if True then js '' Use the uploaded reference image as visual guidance.'' else [])
        @ js '' 16:9 thumbnail composition, high contrast, no watermarks, suitable for social/YouTube.''"
    by blast
  then show ?thesis
    by (simp add: rest) (simp add: js_def)
qed

text \<open>
  C1 as the specification states it fails on a free-text field that is not empty but
  only blanks: \<^verbatim>\<open>||\<close> keeps it, so the category clause of the composed prompt
  carries the two blanks and not \<^verbatim>\<open>Other\<close>.
\<close>

theorem whitespace_custom_kept:
  "trim (js ''  '') = [] \<and>
   composePrompt (DEFAULT_ANSWERS\<lparr>category := Other, customCategory := js ''  ''\<rparr>) False =
     js ''Category:   . Style: Minimal. Colors/Vibe: Bright. No text overlay. 16:9 thumbnail composition, high contrast, no watermarks, suitable for social/YouTube.'' \<and>
   composePrompt (DEFAULT_ANSWERS\<lparr>category := Other, customCategory := js ''  ''\<rparr>) False \<noteq>
     js ''Category: Other. Style: Minimal. Colors/Vibe: Bright. No text overlay. 16:9 thumbnail composition, high contrast, no watermarks, suitable for social/YouTube.'' \<and>
   parts (DEFAULT_ANSWERS\<lparr>category := Other, customCategory := js ''  ''\<rparr>) False ! 0
     = js ''Category:   .'' \<and>
   parts (DEFAULT_ANSWERS\<lparr>category := Other, customCategory := js ''  ''\<rparr>) False ! 0
     \<noteq> js ''Category: Other.''"
proof -
  let ?a = "DEFAULT_ANSWERS\<lparr>category := Other, customCategory := js ''  ''\<rparr>"
  have p: "composePrompt ?a False =
     js ''Category:   . Style: Minimal. Colors/Vibe: Bright. No text overlay. 16:9 thumbnail composition, high contrast, no watermarks, suitable for social/YouTube.''"
    by (simp add: composePrompt_def parts_def categoryText_def styleText_def vibeText_def
        overlay_def DEFAULT_ANSWERS_def js_def)
  have q: "parts ?a False ! 0 = js ''Category:   .''"
    by (simp add: parts_def categoryText_def DEFAULT_ANSWERS_def) (simp add: js_def)
  show ?thesis
    unfolding p q by (simp add: trim_blank) (simp add: js_def)
qed

section \<open>The generate proxy: properties\<close>




section \<open>The handlers: how a run ends\<close>

lemma st_history_settle:
  "st_history (settle fb env p a outcome s) =
     (case outcome of
        Inr u \<Rightarrow> \<lparr>data_url = u, prompt = p, answers = a, timestamp = now env\<rparr> # st_history s
      | Inl msg \<Rightarrow> st_history s)"
  by (simp add: settle_def addToHistory_def Let_def split: sum.splits)

lemma st_lastRequest_settle: "st_lastRequest (settle fb env p a outcome s) = st_lastRequest s"
  by (simp add: settle_def addToHistory_def Let_def split: sum.splits)

lemma st_error_settle_Inl:
  "st_error (settle fb env p a (Inl msg) s) = (if msg = [] then fb else msg)"
  by (simp add: settle_def)

lemma exchange_Inr:
  "fetch env req = Inr res \<Longrightarrow> res_ok res \<Longrightarrow> res_json res = Inr (Some u) \<Longrightarrow> u \<noteq> [] \<Longrightarrow>
   exchange label env req = Inr u"
  by (simp add: exchange_def)

lemma exchange_Inr_iff:
  "exchange label env req = Inr u \<longleftrightarrow>
     (\<exists>res. fetch env req = Inr res \<and> res_ok res \<and> res_json res = Inr (Some u) \<and> u \<noteq> [])"
  by (auto simp: exchange_def Let_def split: sum.splits option.splits)

lemma exchange_not_ok:
  "fetch env req = Inr res \<Longrightarrow> \<not> res_ok res \<Longrightarrow> res_text res = Inr details \<Longrightarrow>
   exchange label env req =
     Inl (label @ (if details = [] then [] else js ''Details: '' @ truncate details 300))"
  by (simp add: exchange_def safeReadText_def)

lemma truncate_length: "length (truncate s n) \<le> Suc n"
  by (simp add: truncate_def)

text \<open>The four ways \<open>handleSubmit\<close> ends.\<close>

lemma handleSubmit_cases:
  fixes env s
  defines "p \<equiv> trim (if st_prompt s = [] then derivedPrompt s else st_prompt s)"
  obtains
    (invalid) "p = []"
      "handleSubmit env s =
         (s\<lparr>st_error := js ''Please provide a prompt or complete the guided answers.''\<rparr>, [])"
  | (unread) f msg where "p \<noteq> []" "st_uploadFile s = Some f"
      "fileToBase64 f (readAsDataURL env) = Inl msg"
      "handleSubmit env s =
         (settle (js ''Something went wrong while processing your request.'') env p (st_answers s)
            (Inl msg) (s\<lparr>st_error := []\<rparr>), [])"
  | (edit) f base64 mime where "p \<noteq> []" "st_uploadFile s = Some f"
      "fileToBase64 f (readAsDataURL env) = Inr (base64, mime)"
      "handleSubmit env s =
         (settle (js ''Something went wrong while processing your request.'') env p (st_answers s)
            (exchange (js ''Edit request failed. '') env (post_json ApiEdit (EditPayload p base64 mime)))
            (s\<lparr>st_error := [],
               st_lastRequest := Some \<lparr>route = ApiEdit, payload = EditPayload p base64 mime\<rparr>\<rparr>),
          [post_json ApiEdit (EditPayload p base64 mime)])"
  | (generate) "p \<noteq> []" "st_uploadFile s = None"
      "handleSubmit env s =
         (settle (js ''Something went wrong while processing your request.'') env p (st_answers s)
            (exchange (js ''Generate request failed. '') env (post_json ApiGenerate (GeneratePayload p)))
            (s\<lparr>st_error := [],
               st_lastRequest := Some \<lparr>route = ApiGenerate, payload = GeneratePayload p\<rparr>\<rparr>),
          [post_json ApiGenerate (GeneratePayload p)])"
proof (cases "p = []")
  case True
  then show ?thesis
    using invalid by (simp add: handleSubmit_def p_def Let_def)
next
  case ne: False
  show ?thesis
  proof (cases "st_uploadFile s")
    case None
    then show ?thesis
      using ne generate by (simp add: handleSubmit_def p_def Let_def)
  next
    case (Some f)
    show ?thesis
    proof (cases "fileToBase64 f (readAsDataURL env)")
      case (Inl msg)
      then show ?thesis
        using ne Some unread by (simp add: handleSubmit_def p_def Let_def)
    next
      case (Inr bm)
      then obtain base64 mime where "fileToBase64 f (readAsDataURL env) = Inr (base64, mime)"
        by (cases bm) simp
      then show ?thesis
        using ne Some edit by (simp add: handleSubmit_def p_def Let_def)
    qed
  qed
qed

text \<open>A run of \<open>handleSubmit\<close> that sent a request: the request, and the final state.\<close>

lemma handleSubmit_sent:
  assumes "snd (handleSubmit env s) = [req]"
  obtains pl where
    "req = post_json (if st_uploadFile s = None then ApiGenerate else ApiEdit) pl"
    "handleSubmit env s =
       (settle (js ''Something went wrong while processing your request.'') env
          (trim (if st_prompt s = [] then derivedPrompt s else st_prompt s)) (st_answers s)
          (exchange (if st_uploadFile s = None then js ''Generate request failed. ''
                     else js ''Edit request failed. '') env req)
          (s\<lparr>st_error := [],
             st_lastRequest := Some \<lparr>route = (if st_uploadFile s = None then ApiGenerate else ApiEdit),
                                     payload = pl\<rparr>\<rparr>),
        [req])"
proof (cases env s rule: handleSubmit_cases)
  case invalid
  with assms show ?thesis by simp
next
  case (unread f msg)
  with assms show ?thesis by simp
next
  case (edit f base64 mime)
  from edit(4) assms have "req = post_json ApiEdit
      (EditPayload (trim (if st_prompt s = [] then derivedPrompt s else st_prompt s)) base64 mime)"
    by simp
  with edit(2,4) show ?thesis
    by (intro that [of "EditPayload (trim (if st_prompt s = [] then derivedPrompt s else st_prompt s)) base64 mime"])
      simp_all
next
  case generate
  from generate(3) assms have "req = post_json ApiGenerate
      (GeneratePayload (trim (if st_prompt s = [] then derivedPrompt s else st_prompt s)))"
    by simp
  with generate(2,3) show ?thesis
    by (intro that [of "GeneratePayload (trim (if st_prompt s = [] then derivedPrompt s else st_prompt s))"])
      simp_all
qed

text \<open>A run of \<open>handleSubmit\<close> that sent no request leaves the history and the remembered request.\<close>

lemma handleSubmit_unsent:
  assumes "\<And>req. snd (handleSubmit env s) \<noteq> [req]"
  shows "st_history (fst (handleSubmit env s)) = st_history s"
    and "st_lastRequest (fst (handleSubmit env s)) = st_lastRequest s"
proof -
  have "st_history (fst (handleSubmit env s)) = st_history s \<and>
      st_lastRequest (fst (handleSubmit env s)) = st_lastRequest s"
  proof (cases env s rule: handleSubmit_cases)
    case invalid
    then show ?thesis by simp
  next
    case (unread f msg)
    then show ?thesis by (simp add: st_history_settle st_lastRequest_settle)
  next
    case (edit f base64 mime)
    with assms show ?thesis by (metis snd_conv)
  next
    case generate
    with assms show ?thesis by (metis snd_conv)
  qed
  then show "st_history (fst (handleSubmit env s)) = st_history s"
    and "st_lastRequest (fst (handleSubmit env s)) = st_lastRequest s"
    by simp_all
qed

lemma handleRegenerate_Some:
  "st_lastRequest s = Some r \<Longrightarrow>
   handleRegenerate env s =
     (settle (js ''Could not regenerate the image.'') env (payload_prompt (payload r)) (st_answers s)
        (exchange (js ''Regenerate failed. '') env (post_json (route r) (payload r)))
        (s\<lparr>st_error := []\<rparr>),
      [post_json (route r) (payload r)])"
  by (simp add: handleRegenerate_def Let_def)

lemma handleRegenerate_None: "st_lastRequest s = None \<Longrightarrow> handleRegenerate env s = (s, [])"
  by (simp add: handleRegenerate_def)

lemma handleRegenerate_lastRequest:
  "st_lastRequest (fst (handleRegenerate env s)) = st_lastRequest s"
  by (cases "st_lastRequest s")
    (simp_all add: handleRegenerate_None handleRegenerate_Some st_lastRequest_settle)

lemma onAnswersChange_fields:
  "st_answers (onAnswersChange kv s) = setKey kv (st_answers s)"
  "st_lastRequest (onAnswersChange kv s) = st_lastRequest s"
  "st_history (onAnswersChange kv s) = st_history s"
  by (simp_all add: onAnswersChange_def syncPrompt_def)

text \<open>The page as mounted, with a prompt typed by the user: a submission sends that prompt.\<close>

lemma typed_submit_sends:
  "trim p = p \<Longrightarrow> p \<noteq> [] \<Longrightarrow>
   snd (handleSubmit env (onPromptChange p (mounted stored))) =
     [post_json ApiGenerate (GeneratePayload p)]"
  by (simp add: handleSubmit_def onPromptChange_def mounted_def Let_def)

lemma typed_submit_remembers:
  "trim p = p \<Longrightarrow> p \<noteq> [] \<Longrightarrow>
   st_lastRequest (fst (handleSubmit env (onPromptChange p (mounted stored)))) =
     Some \<lparr>route = ApiGenerate, payload = GeneratePayload p\<rparr>"
  by (simp add: handleSubmit_def onPromptChange_def mounted_def Let_def st_lastRequest_settle)

lemma handleSubmit_answers: "st_answers (fst (handleSubmit env s)) = st_answers s"
  by (cases env s rule: handleSubmit_cases)
    (simp_all add: settle_def addToHistory_def Let_def split: sum.splits)

text \<open>The page as mounted with an empty history: a successful submission of the prefilled prompt.\<close>

lemma mounted_submit:
  fixes s1
  defines "s1 \<equiv> fst (handleSubmit (answering (Inr image_response)) (mounted None))"
  shows "st_history s1 =
      [\<lparr>data_url = js ''data:image/png;base64,QUJD'', prompt = composePrompt DEFAULT_ANSWERS False,
        answers = DEFAULT_ANSWERS, timestamp = 1700000000000\<rparr>]"
    and "st_lastRequest s1 =
      Some \<lparr>route = ApiGenerate, payload = GeneratePayload (composePrompt DEFAULT_ANSWERS False)\<rparr>"
    and "st_answers s1 = DEFAULT_ANSWERS"
proof -
  define p where "p = composePrompt DEFAULT_ANSWERS False"
  have ne: "p \<noteq> []"
    using composePrompt_ends [of DEFAULT_ANSWERS False] by (auto simp: p_def)
  have tp: "trim p = p"
    by (simp add: p_def trim_composePrompt)
  have ex: "exchange label (answering (Inr image_response)) req = Inr (js ''data:image/png;base64,QUJD'')"
    for label req
    by (simp add: exchange_def answering_def image_response_def js_def)
  have dp: "derivedPrompt (mounted None) = p" "st_prompt (mounted None) = p"
    by (simp_all add: derivedPrompt_def mounted_def p_def)
  have run: "handleSubmit (answering (Inr image_response)) (mounted None) =
      (settle (js ''Something went wrong while processing your request.'')
         (answering (Inr image_response)) p DEFAULT_ANSWERS
         (Inr (js ''data:image/png;base64,QUJD''))
         ((mounted None)\<lparr>st_error := [],
            st_lastRequest := Some \<lparr>route = ApiGenerate, payload = GeneratePayload p\<rparr>\<rparr>),
       [post_json ApiGenerate (GeneratePayload p)])"
    unfolding handleSubmit_def Let_def dp ex
    using ne by (simp add: tp mounted_def)
  have "st_history s1 =
      [\<lparr>data_url = js ''data:image/png;base64,QUJD'', prompt = p,
        answers = DEFAULT_ANSWERS, timestamp = 1700000000000\<rparr>] \<and>
    st_lastRequest s1 = Some \<lparr>route = ApiGenerate, payload = GeneratePayload p\<rparr> \<and>
    st_answers s1 = DEFAULT_ANSWERS"
    unfolding s1_def run fst_conv
    by (simp add: st_history_settle st_lastRequest_settle)
      (simp add: mounted_def settle_def addToHistory_def answering_def Let_def)
  then show "st_history s1 =
      [\<lparr>data_url = js ''data:image/png;base64,QUJD'', prompt = composePrompt DEFAULT_ANSWERS False,
        answers = DEFAULT_ANSWERS, timestamp = 1700000000000\<rparr>]"
    and "st_lastRequest s1 =
      Some \<lparr>route = ApiGenerate, payload = GeneratePayload (composePrompt DEFAULT_ANSWERS False)\<rparr>"
    and "st_answers s1 = DEFAULT_ANSWERS"
    by (simp_all add: p_def)
qed

section \<open>The handlers: properties\<close>

text \<open>
  C5: when the effective prompt (the prompt text, or the derived prompt when the text
  is empty) trims to the empty string, \<open>handleSubmit\<close> sends no request and sets the
  validation message as the error.
\<close>

theorem handleSubmit_empty_prompt:
  "trim (if st_prompt s = [] then derivedPrompt s else st_prompt s) = [] \<Longrightarrow>
   handleSubmit env s =
     (s\<lparr>st_error := js ''Please provide a prompt or complete the guided answers.''\<rparr>, [])"
  by (cases env s rule: handleSubmit_cases) simp_all

theorem handleSubmit_empty_prompt_witness:
  "handleSubmit (answering (Inr image_response)) (onPromptChange (js ''  '') (mounted None)) =
     ((onPromptChange (js ''  '') (mounted None))
        \<lparr>st_error := js ''Please provide a prompt or complete the guided answers.''\<rparr>, [])"
proof -
  have "st_prompt (onPromptChange (js ''  '') (mounted None)) = js ''  '' \<and> js ''  '' \<noteq> []"
    by (simp add: onPromptChange_def js_def)
  then have "trim (if st_prompt (onPromptChange (js ''  '') (mounted None)) = []
      then derivedPrompt (onPromptChange (js ''  '') (mounted None))
      else st_prompt (onPromptChange (js ''  '') (mounted None))) = []"
    by (simp add: trim_blank)
  then show ?thesis
    by (rule handleSubmit_empty_prompt)
qed

lemma handleSubmit_history_success:
  assumes "snd (handleSubmit env s) = [req]" "fetch env req = Inr res" "res_ok res"
    "res_json res = Inr (Some u)" "u \<noteq> []"
  shows "st_history (fst (handleSubmit env s)) =
     \<lparr>data_url = u, prompt = trim (if st_prompt s = [] then derivedPrompt s else st_prompt s),
      answers = st_answers s, timestamp = now env\<rparr> # st_history s"
proof -
  let ?label = "if st_uploadFile s = None then js ''Generate request failed. ''
     else js ''Edit request failed. ''"
  from assms(1) obtain pl where run: "handleSubmit env s =
       (settle (js ''Something went wrong while processing your request.'') env
          (trim (if st_prompt s = [] then derivedPrompt s else st_prompt s)) (st_answers s)
          (exchange ?label env req)
          (s\<lparr>st_error := [],
             st_lastRequest := Some \<lparr>route = (if st_uploadFile s = None then ApiGenerate else ApiEdit),
                                     payload = pl\<rparr>\<rparr>),
        [req])"
    by (rule handleSubmit_sent)
  have "exchange ?label env req = Inr u"
    using assms(2-5) by (rule exchange_Inr)
  then show ?thesis
    unfolding run fst_conv by (simp add: st_history_settle)
qed

lemma handleSubmit_history_failure:
  assumes "\<not> (\<exists>req res u. snd (handleSubmit env s) = [req] \<and> fetch env req = Inr res \<and> res_ok res
      \<and> res_json res = Inr (Some u) \<and> u \<noteq> [])"
  shows "st_history (fst (handleSubmit env s)) = st_history s"
proof (cases "\<exists>req. snd (handleSubmit env s) = [req]")
  case False
  then show ?thesis by (intro handleSubmit_unsent) blast
next
  case True
  then obtain req where req: "snd (handleSubmit env s) = [req]" ..
  let ?label = "if st_uploadFile s = None then js ''Generate request failed. ''
     else js ''Edit request failed. ''"
  from req obtain pl where run: "handleSubmit env s =
       (settle (js ''Something went wrong while processing your request.'') env
          (trim (if st_prompt s = [] then derivedPrompt s else st_prompt s)) (st_answers s)
          (exchange ?label env req)
          (s\<lparr>st_error := [],
             st_lastRequest := Some \<lparr>route = (if st_uploadFile s = None then ApiGenerate else ApiEdit),
                                     payload = pl\<rparr>\<rparr>),
        [req])"
    by (rule handleSubmit_sent)
  from assms req have "\<And>u. exchange ?label env req \<noteq> Inr u"
    unfolding exchange_Inr_iff by blast
  then obtain msg where "exchange ?label env req = Inl msg"
    by (cases "exchange ?label env req") auto
  then show ?thesis
    unfolding run fst_conv by (simp add: st_history_settle)
qed

lemma handleRegenerate_history_success:
  assumes "st_lastRequest s = Some r" "fetch env (post_json (route r) (payload r)) = Inr res"
    "res_ok res" "res_json res = Inr (Some u)" "u \<noteq> []"
  shows "st_history (fst (handleRegenerate env s)) =
     \<lparr>data_url = u, prompt = payload_prompt (payload r), answers = st_answers s,
      timestamp = now env\<rparr> # st_history s"
proof -
  have "exchange (js ''Regenerate failed. '') env (post_json (route r) (payload r)) = Inr u"
    using assms(2-5) by (rule exchange_Inr)
  then show ?thesis
    by (simp add: handleRegenerate_Some [OF assms(1)] st_history_settle)
qed

lemma handleRegenerate_history_failure:
  assumes "\<not> (\<exists>r res u. st_lastRequest s = Some r \<and> fetch env (post_json (route r) (payload r)) = Inr res
      \<and> res_ok res \<and> res_json res = Inr (Some u) \<and> u \<noteq> [])"
  shows "st_history (fst (handleRegenerate env s)) = st_history s"
proof (cases "st_lastRequest s")
  case None
  then show ?thesis by (simp add: handleRegenerate_None)
next
  case (Some r)
  with assms have "\<And>u. exchange (js ''Regenerate failed. '') env (post_json (route r) (payload r)) \<noteq> Inr u"
    unfolding exchange_Inr_iff by blast
  then obtain msg where
    "exchange (js ''Regenerate failed. '') env (post_json (route r) (payload r)) = Inl msg"
    by (cases "exchange (js ''Regenerate failed. '') env (post_json (route r) (payload r))") auto
  then show ?thesis
    by (simp add: handleRegenerate_Some [OF Some] st_history_settle)
qed

text \<open>
  C6: a request succeeds when \<^verbatim>\<open>fetch\<close> resolves to a response with \<^verbatim>\<open>res.ok\<close>
  whose JSON has a non-empty \<^verbatim>\<open>data_url\<close>. After a successful request of
  \<open>handleSubmit\<close> or \<open>handleRegenerate\<close> the history is the new item followed by the
  prior history; after a run with no successful request (none sent, or a failed one)
  the history is the prior history.
\<close>

theorem history_prepended_on_success_only:
  "(snd (handleSubmit env s) = [req] \<and> fetch env req = Inr res \<and> res_ok res \<and>
    res_json res = Inr (Some u) \<and> u \<noteq> [] \<longrightarrow>
      st_history (fst (handleSubmit env s)) =
        \<lparr>data_url = u,
         prompt = trim (if st_prompt s = [] then derivedPrompt s else st_prompt s),
         answers = st_answers s, timestamp = now env\<rparr> # st_history s) \<and>
   (\<not> (\<exists>req res u. snd (handleSubmit env s) = [req] \<and> fetch env req = Inr res \<and> res_ok res \<and>
          res_json res = Inr (Some u) \<and> u \<noteq> []) \<longrightarrow>
      st_history (fst (handleSubmit env s)) = st_history s) \<and>
   (st_lastRequest s = Some r \<and> fetch env (post_json (route r) (payload r)) = Inr res' \<and>
    res_ok res' \<and> res_json res' = Inr (Some u') \<and> u' \<noteq> [] \<longrightarrow>
      st_history (fst (handleRegenerate env s)) =
        \<lparr>data_url = u', prompt = payload_prompt (payload r), answers = st_answers s,
         timestamp = now env\<rparr> # st_history s) \<and>
   (\<not> (\<exists>r res u. st_lastRequest s = Some r \<and> fetch env (post_json (route r) (payload r)) = Inr res \<and>
          res_ok res \<and> res_json res = Inr (Some u) \<and> u \<noteq> []) \<longrightarrow>
      st_history (fst (handleRegenerate env s)) = st_history s)"
  using handleSubmit_history_success [of env s req res u]
    handleSubmit_history_failure [of env s]
    handleRegenerate_history_success [of s r env res' u']
    handleRegenerate_history_failure [of s env]
  by blast

theorem history_prepended_on_success_only_witness:
  "st_history (fst (handleSubmit (answering (Inr image_response))
      (onPromptChange (js ''a cat'') (mounted (Some [])))))
     = [\<lparr>data_url = js ''data:image/png;base64,QUJD'', prompt = js ''a cat'',
         answers = DEFAULT_ANSWERS, timestamp = 1700000000000\<rparr>] \<and>
   st_history (fst (handleSubmit (answering (Inr (failure_response (js ''quota''))))
      (onPromptChange (js ''a cat'') (mounted (Some [])))))
     = [] \<and>
   st_history (fst (handleRegenerate (answering (Inr image_response))
      (fst (handleSubmit (answering (Inr image_response))
         (onPromptChange (js ''a cat'') (mounted (Some [])))))))
     = [\<lparr>data_url = js ''data:image/png;base64,QUJD'', prompt = js ''a cat'',
         answers = DEFAULT_ANSWERS, timestamp = 1700000000000\<rparr>,
        \<lparr>data_url = js ''data:image/png;base64,QUJD'', prompt = js ''a cat'',
         answers = DEFAULT_ANSWERS, timestamp = 1700000000000\<rparr>] \<and>
   st_history (fst (handleRegenerate (answering (Inr (failure_response (js ''quota''))))
      (fst (handleSubmit (answering (Inr image_response))
         (onPromptChange (js ''a cat'') (mounted (Some [])))))))
     = [\<lparr>data_url = js ''data:image/png;base64,QUJD'', prompt = js ''a cat'',
         answers = DEFAULT_ANSWERS, timestamp = 1700000000000\<rparr>]"
proof -
  let ?ok = "answering (Inr image_response)"
  let ?ko = "answering (Inr (failure_response (js ''quota'')))"
  let ?typed = "onPromptChange (js ''a cat'') (mounted (Some []))"
  let ?req = "post_json ApiGenerate (GeneratePayload (js ''a cat''))"
  let ?r = "\<lparr>route = ApiGenerate, payload = GeneratePayload (js ''a cat'')\<rparr>"
  let ?u = "js ''data:image/png;base64,QUJD''"
  have ne: "js ''a cat'' \<noteq> []"
    by (simp add: js_def)
  have sent: "snd (handleSubmit env ?typed) = [?req]" for env
    using trim_a_cat ne by (rule typed_submit_sends)
  have ok: "fetch ?ok req = Inr image_response \<and> res_ok image_response \<and>
      res_json image_response = Inr (Some ?u) \<and> ?u \<noteq> []" for req
    by (simp add: answering_def image_response_def js_def)
  have ko: "\<not> (\<exists>res u. fetch ?ko req = Inr res \<and> res_ok res \<and> res_json res = Inr (Some u) \<and> u \<noteq> [])"
    for req
    by (auto simp: answering_def failure_response_def)
  have typed: "st_prompt ?typed = js ''a cat'' \<and> st_answers ?typed = DEFAULT_ANSWERS \<and>
      st_history ?typed = [] \<and> now ?ok = 1700000000000"
    by (simp add: onPromptChange_def mounted_def answering_def)
  from history_prepended_on_success_only [of ?ok ?typed ?req image_response ?u] sent ok
  have "st_history (fst (handleSubmit ?ok ?typed)) =
        \<lparr>data_url = ?u,
         prompt = trim (if st_prompt ?typed = [] then derivedPrompt ?typed else st_prompt ?typed),
         answers = st_answers ?typed, timestamp = now ?ok\<rparr> # st_history ?typed"
    by blast
  then have submitted: "st_history (fst (handleSubmit ?ok ?typed)) =
      [\<lparr>data_url = ?u, prompt = js ''a cat'', answers = DEFAULT_ANSWERS,
        timestamp = 1700000000000\<rparr>]"
    using typed ne trim_a_cat by simp
  from history_prepended_on_success_only [of ?ko ?typed] ko
  have failed: "st_history (fst (handleSubmit ?ko ?typed)) = st_history ?typed"
    by blast
  have r: "st_lastRequest (fst (handleSubmit ?ok ?typed)) = Some ?r"
    using trim_a_cat ne by (rule typed_submit_remembers)
  from history_prepended_on_success_only
    [of ?ok "fst (handleSubmit ?ok ?typed)" _ _ _ ?r image_response ?u] r ok
  have "st_history (fst (handleRegenerate ?ok (fst (handleSubmit ?ok ?typed)))) =
        \<lparr>data_url = ?u, prompt = payload_prompt (payload ?r),
         answers = st_answers (fst (handleSubmit ?ok ?typed)), timestamp = now ?ok\<rparr>
        # st_history (fst (handleSubmit ?ok ?typed))"
    by blast
  then have regenerated: "st_history (fst (handleRegenerate ?ok (fst (handleSubmit ?ok ?typed)))) =
      [\<lparr>data_url = ?u, prompt = js ''a cat'', answers = DEFAULT_ANSWERS,
        timestamp = 1700000000000\<rparr>,
       \<lparr>data_url = ?u, prompt = js ''a cat'', answers = DEFAULT_ANSWERS,
        timestamp = 1700000000000\<rparr>]"
    using typed by (simp add: submitted handleSubmit_answers)
  from history_prepended_on_success_only [of ?ko "fst (handleSubmit ?ok ?typed)"] ko
  have "st_history (fst (handleRegenerate ?ko (fst (handleSubmit ?ok ?typed)))) =
      st_history (fst (handleSubmit ?ok ?typed))"
    by blast
  with submitted failed regenerated typed show ?thesis
    by simp
qed

text \<open>
  C4: with a remembered request, \<open>handleRegenerate\<close> sends exactly one request, the
  remembered route and payload posted as JSON, whatever the prompt of the page is (it
  validates nothing). After a submission that sent a request, in any state that still
  remembers what that submission remembered, \<open>handleRegenerate\<close> sends that same
  request: the same URL, method, headers and body. Regenerating, changing an answer,
  typing in the prompt field and a submission that sends nothing leave the remembered
  request as it is.
\<close>

theorem regenerate_reissues_request:
  "(st_lastRequest s = Some r \<longrightarrow>
      snd (handleRegenerate env s) = [post_json (route r) (payload r)]) \<and>
   (snd (handleSubmit env0 s0) = [req] \<and>
    st_lastRequest s = st_lastRequest (fst (handleSubmit env0 s0)) \<longrightarrow>
      snd (handleRegenerate env s) = [req]) \<and>
   st_lastRequest (fst (handleRegenerate env s)) = st_lastRequest s \<and>
   st_lastRequest (onAnswersChange kv s) = st_lastRequest s \<and>
   st_lastRequest (onPromptChange v s) = st_lastRequest s \<and>
   (snd (handleSubmit env s) = [] \<longrightarrow> st_lastRequest (fst (handleSubmit env s)) = st_lastRequest s)"
proof (intro conjI impI)
  assume "st_lastRequest s = Some r"
  then show "snd (handleRegenerate env s) = [post_json (route r) (payload r)]"
    by (simp add: handleRegenerate_Some)
next
  assume a: "snd (handleSubmit env0 s0) = [req] \<and>
    st_lastRequest s = st_lastRequest (fst (handleSubmit env0 s0))"
  then obtain pl where
    req: "req = post_json (if st_uploadFile s0 = None then ApiGenerate else ApiEdit) pl" and
    run: "handleSubmit env0 s0 =
       (settle (js ''Something went wrong while processing your request.'') env0
          (trim (if st_prompt s0 = [] then derivedPrompt s0 else st_prompt s0)) (st_answers s0)
          (exchange (if st_uploadFile s0 = None then js ''Generate request failed. ''
                     else js ''Edit request failed. '') env0 req)
          (s0\<lparr>st_error := [],
             st_lastRequest := Some \<lparr>route = (if st_uploadFile s0 = None then ApiGenerate else ApiEdit),
                                     payload = pl\<rparr>\<rparr>),
        [req])"
    by (blast elim: handleSubmit_sent)
  from a have "st_lastRequest s = st_lastRequest (fst (handleSubmit env0 s0))" ..
  also have "\<dots> = Some \<lparr>route = (if st_uploadFile s0 = None then ApiGenerate else ApiEdit), payload = pl\<rparr>"
    by (subst run) (simp add: st_lastRequest_settle)
  finally show "snd (handleRegenerate env s) = [req]"
    by (simp add: handleRegenerate_Some req)
next
  show "st_lastRequest (fst (handleRegenerate env s)) = st_lastRequest s"
    by (rule handleRegenerate_lastRequest)
next
  show "st_lastRequest (onAnswersChange kv s) = st_lastRequest s"
    by (rule onAnswersChange_fields)
next
  show "st_lastRequest (onPromptChange v s) = st_lastRequest s"
    by (simp add: onPromptChange_def)
next
  assume "snd (handleSubmit env s) = []"
  then show "st_lastRequest (fst (handleSubmit env s)) = st_lastRequest s"
    by (intro handleSubmit_unsent) simp
qed

text \<open>
  A submission of the prompt \<^verbatim>\<open>a cat\<close>; the user then blanks the prompt field, so that
  a new submission is rejected; regenerating (here with the network down) still sends
  the request of the submission.
\<close>

theorem regenerate_reissues_request_witness:
  "snd (handleSubmit (answering (Inr image_response)) (onPromptChange (js ''a cat'') (mounted None)))
     = [post_json ApiGenerate (GeneratePayload (js ''a cat''))] \<and>
   handleSubmit (answering (Inr image_response))
      (onPromptChange (js ''  '')
         (fst (handleSubmit (answering (Inr image_response)) (onPromptChange (js ''a cat'') (mounted None)))))
     = ((onPromptChange (js ''  '')
          (fst (handleSubmit (answering (Inr image_response)) (onPromptChange (js ''a cat'') (mounted None)))))
        \<lparr>st_error := js ''Please provide a prompt or complete the guided answers.''\<rparr>, []) \<and>
   st_lastRequest (fst (handleSubmit (answering (Inr image_response))
      (onPromptChange (js ''  '')
         (fst (handleSubmit (answering (Inr image_response)) (onPromptChange (js ''a cat'') (mounted None)))))))
     = Some \<lparr>route = ApiGenerate, payload = GeneratePayload (js ''a cat'')\<rparr> \<and>
   snd (handleRegenerate (answering (Inl (js ''Failed to fetch'')))
      (onPromptChange (js ''  '')
         (fst (handleSubmit (answering (Inr image_response)) (onPromptChange (js ''a cat'') (mounted None))))))
     = [post_json ApiGenerate (GeneratePayload (js ''a cat''))] \<and>
   req_url (post_json ApiGenerate (GeneratePayload (js ''a cat''))) = js ''/api/generate'' \<and>
   req_body (post_json ApiGenerate (GeneratePayload (js ''a cat''))) = js ''{\"prompt\":\"a cat\"}''"
proof -
  let ?env = "answering (Inr image_response)"
  let ?down = "answering (Inl (js ''Failed to fetch''))"
  let ?typed = "onPromptChange (js ''a cat'') (mounted None)"
  let ?blanked = "onPromptChange (js ''  '') (fst (handleSubmit ?env ?typed))"
  let ?r = "\<lparr>route = ApiGenerate, payload = GeneratePayload (js ''a cat'')\<rparr>"
  let ?req = "post_json ApiGenerate (GeneratePayload (js ''a cat''))"
  have ne: "js ''a cat'' \<noteq> []"
    by (simp add: js_def)
  have sent: "snd (handleSubmit ?env ?typed) = [?req]"
    using trim_a_cat ne by (rule typed_submit_sends)
  have "st_prompt ?blanked = js ''  '' \<and> js ''  '' \<noteq> []"
    by (simp add: onPromptChange_def js_def)
  then have blank: "handleSubmit ?env ?blanked =
      (?blanked\<lparr>st_error := js ''Please provide a prompt or complete the guided answers.''\<rparr>, [])"
    by (simp add: handleSubmit_def Let_def trim_blank)
  have same: "st_lastRequest ?blanked = st_lastRequest (fst (handleSubmit ?env ?typed))"
    by (simp add: onPromptChange_def)
  also have r: "\<dots> = Some ?r"
    using trim_a_cat ne by (rule typed_submit_remembers)
  finally have remembered: "st_lastRequest ?blanked = Some ?r" .
  from regenerate_reissues_request [of ?blanked ?r ?down ?env ?typed ?req] remembered
  have "snd (handleRegenerate ?down ?blanked) = [post_json (route ?r) (payload ?r)]"
    by blast
  moreover from regenerate_reissues_request [of ?blanked ?r ?down ?env ?typed ?req] sent same
  have "snd (handleRegenerate ?down ?blanked) = [?req]"
    by blast
  moreover from regenerate_reissues_request [of ?blanked ?r ?env] blank
  have "st_lastRequest (fst (handleSubmit ?env ?blanked)) = st_lastRequest ?blanked"
    by simp
  moreover have "req_url ?req = js ''/api/generate''"
    by (simp add: post_json_def)
  moreover have "req_body ?req = js ''{\"prompt\":\"a cat\"}''"
    by (simp add: post_json_def QuoteJSONString_def escapeUnit_def isLeadSurrogate_def
        isTrailSurrogate_def js_def)
  ultimately show ?thesis
    using sent blank remembered by simp
qed

lemma handleSubmit_not_ok:
  assumes "snd (handleSubmit env s) = [req]" "fetch env req = Inr res" "\<not> res_ok res"
    "res_text res = Inr details"
  shows "st_error (fst (handleSubmit env s)) =
        (if st_uploadFile s = None then js ''Generate request failed. ''
         else js ''Edit request failed. '')
        @ (if details = [] then [] else js ''Details: '' @ truncate details 300)"
proof -
  let ?label = "if st_uploadFile s = None then js ''Generate request failed. ''
     else js ''Edit request failed. ''"
  from assms(1) obtain pl where run: "handleSubmit env s =
       (settle (js ''Something went wrong while processing your request.'') env
          (trim (if st_prompt s = [] then derivedPrompt s else st_prompt s)) (st_answers s)
          (exchange ?label env req)
          (s\<lparr>st_error := [],
             st_lastRequest := Some \<lparr>route = (if st_uploadFile s = None then ApiGenerate else ApiEdit),
                                     payload = pl\<rparr>\<rparr>),
        [req])"
    by (rule handleSubmit_sent)
  have ex: "exchange ?label env req =
      Inl (?label @ (if details = [] then [] else js ''Details: '' @ truncate details 300))"
    using assms(2-4) by (rule exchange_not_ok)
  have "?label \<noteq> []"
    by (simp add: js_def)
  then show ?thesis
    unfolding run ex fst_conv st_error_settle_Inl by simp
qed

lemma handleRegenerate_not_ok:
  assumes "st_lastRequest s = Some r" "fetch env (post_json (route r) (payload r)) = Inr res"
    "\<not> res_ok res" "res_text res = Inr details"
  shows "st_error (fst (handleRegenerate env s)) =
        js ''Regenerate failed. ''
        @ (if details = [] then [] else js ''Details: '' @ truncate details 300)"
proof -
  have ex: "exchange (js ''Regenerate failed. '') env (post_json (route r) (payload r)) =
      Inl (js ''Regenerate failed. '' @ (if details = [] then [] else js ''Details: '' @ truncate details 300))"
    using assms(2-4) by (rule exchange_not_ok)
  have "js ''Regenerate failed. '' \<noteq> []"
    by (simp add: js_def)
  then show ?thesis
    unfolding handleRegenerate_Some [OF assms(1)] ex fst_conv st_error_settle_Inl by simp
qed

text \<open>
  C2, as the code has it: when the response to the request of a submission or of a
  regeneration is not \<^verbatim>\<open>ok\<close> and its body text has been read, the error shown is the
  generic failure message of that request followed, when the text is not empty, by
  \<^verbatim>\<open>Details: \<close> and the truncated text. The truncated text is the body text when that
  has at most 300 characters, and otherwise its first 300 characters followed by one
  ellipsis character: at most 301 characters.
\<close>

theorem failure_detail_truncated:
  "(snd (handleSubmit env s) = [req] \<and> fetch env req = Inr res \<and> \<not> res_ok res \<and>
    res_text res = Inr details \<longrightarrow>
      st_error (fst (handleSubmit env s)) =
        (if st_uploadFile s = None then js ''Generate request failed. ''
         else js ''Edit request failed. '')
        @ (if details = [] then [] else js ''Details: '' @ truncate details 300)) \<and>
   (st_lastRequest s = Some r \<and> fetch env (post_json (route r) (payload r)) = Inr res \<and>
    \<not> res_ok res \<and> res_text res = Inr details \<longrightarrow>
      st_error (fst (handleRegenerate env s)) =
        js ''Regenerate failed. ''
        @ (if details = [] then [] else js ''Details: '' @ truncate details 300)) \<and>
   truncate details 300 =
     (if length details \<le> 300 then details else take 300 details @ [0x2026]) \<and>
   length (truncate details 300) \<le> 301"
proof (intro conjI impI)
  assume "snd (handleSubmit env s) = [req] \<and> fetch env req = Inr res \<and> \<not> res_ok res \<and>
    res_text res = Inr details"
  then show "st_error (fst (handleSubmit env s)) =
      (if st_uploadFile s = None then js ''Generate request failed. ''
       else js ''Edit request failed. '')
      @ (if details = [] then [] else js ''Details: '' @ truncate details 300)"
    by (intro handleSubmit_not_ok) blast+
next
  assume "st_lastRequest s = Some r \<and> fetch env (post_json (route r) (payload r)) = Inr res \<and>
    \<not> res_ok res \<and> res_text res = Inr details"
  then show "st_error (fst (handleRegenerate env s)) =
      js ''Regenerate failed. '' @ (if details = [] then [] else js ''Details: '' @ truncate details 300)"
    by (intro handleRegenerate_not_ok) blast+
next
  show "truncate details 300 =
     (if length details \<le> 300 then details else take 300 details @ [0x2026])"
    by (simp add: truncate_def)
next
  show "length (truncate details 300) \<le> 301"
    using truncate_length [of details 300] by simp
qed

theorem failure_detail_truncated_witness:
  "st_error (fst (handleSubmit (answering (Inr (failure_response (js ''quota exceeded''))))
      (onPromptChange (js ''a cat'') (mounted None))))
     = js ''Generate request failed. Details: quota exceeded'' \<and>
   st_error (fst (handleSubmit (answering (Inr (failure_response [])))
      (onPromptChange (js ''a cat'') (mounted None))))
     = js ''Generate request failed. '' \<and>
   st_error (fst (handleRegenerate (answering (Inr (failure_response (js ''quota exceeded''))))
      (fst (handleSubmit (answering (Inr image_response))
         (onPromptChange (js ''a cat'') (mounted None))))))
     = js ''Regenerate failed. Details: quota exceeded''"
proof -
  let ?typed = "onPromptChange (js ''a cat'') (mounted None)"
  let ?req = "post_json ApiGenerate (GeneratePayload (js ''a cat''))"
  let ?r = "\<lparr>route = ApiGenerate, payload = GeneratePayload (js ''a cat'')\<rparr>"
  let ?quota = "js ''quota exceeded''"
  have ne: "js ''a cat'' \<noteq> []"
    by (simp add: js_def)
  have sent: "snd (handleSubmit env ?typed) = [?req]" for env
    using trim_a_cat ne by (rule typed_submit_sends)
  have r: "st_lastRequest (fst (handleSubmit env ?typed)) = Some ?r" for env
    using trim_a_cat ne by (rule typed_submit_remembers)
  have env: "fetch (answering (Inr (failure_response d))) req = Inr (failure_response d) \<and>
      \<not> res_ok (failure_response d) \<and> res_text (failure_response d) = Inr d" for d req
    by (simp add: answering_def failure_response_def)
  have none: "st_uploadFile (onPromptChange p (mounted None)) = None" for p
    by (simp add: onPromptChange_def mounted_def)
  from failure_detail_truncated
    [of "answering (Inr (failure_response ?quota))" ?typed ?req "failure_response ?quota" ?quota]
    sent env
  have "st_error (fst (handleSubmit (answering (Inr (failure_response ?quota))) ?typed)) =
        (if st_uploadFile ?typed = None then js ''Generate request failed. ''
         else js ''Edit request failed. '')
        @ (if ?quota = [] then [] else js ''Details: '' @ truncate ?quota 300)"
    by blast
  moreover from failure_detail_truncated
    [of "answering (Inr (failure_response []))" ?typed ?req "failure_response []" "[]"]
    sent env
  have "st_error (fst (handleSubmit (answering (Inr (failure_response []))) ?typed)) =
        (if st_uploadFile ?typed = None then js ''Generate request failed. ''
         else js ''Edit request failed. '')
        @ (if ([]::jsstring) = [] then [] else js ''Details: '' @ truncate [] 300)"
    by blast
  moreover from failure_detail_truncated
    [of "answering (Inr (failure_response ?quota))"
      "fst (handleSubmit (answering (Inr image_response)) ?typed)" _
      "failure_response ?quota" ?quota ?r]
    r env
  have "st_error (fst (handleRegenerate (answering (Inr (failure_response ?quota)))
      (fst (handleSubmit (answering (Inr image_response)) ?typed)))) =
        js ''Regenerate failed. ''
        @ (if ?quota = [] then [] else js ''Details: '' @ truncate ?quota 300)"
    by blast
  ultimately show ?thesis
    by (simp add: none truncate_def js_def)
qed

text \<open>
  C2 as the specification states it fails on a body text of 301 characters: the detail
  shown is 300 of them and the ellipsis, 301 characters (310 with \<^verbatim>\<open>Details: \<close>).
\<close>

theorem detail_of_301_characters:
  "st_error (fst (handleSubmit (answering (Inr (failure_response (replicate 301 0x61))))
      (onPromptChange (js ''a cat'') (mounted None))))
     = js ''Generate request failed. '' @ js ''Details: '' @ replicate 300 0x61 @ [0x2026] \<and>
   truncate (replicate 301 0x61) 300 = replicate 300 0x61 @ [0x2026] \<and>
   length (truncate (replicate 301 0x61) 300) = 301 \<and>
   \<not> length (truncate (replicate 301 0x61) 300) \<le> 300"
proof -
  let ?details = "replicate 301 (0x61::jschar)"
  let ?env = "answering (Inr (failure_response ?details))"
  let ?start = "onPromptChange (js ''a cat'') (mounted None)"
  let ?req = "post_json ApiGenerate (GeneratePayload (js ''a cat''))"
  have sent: "snd (handleSubmit ?env ?start) = [?req]"
    by (rule typed_submit_sends [OF trim_a_cat]) (simp add: js_def)
  have t: "truncate ?details 300 = replicate 300 0x61 @ [0x2026]"
    by (simp add: truncate_def)
  have env: "fetch ?env ?req = Inr (failure_response ?details)"
    "\<not> res_ok (failure_response ?details)"
    "res_text (failure_response ?details) = Inr ?details"
    by (simp_all add: answering_def failure_response_def)
  have "st_error (fst (handleSubmit ?env ?start)) =
        (if st_uploadFile ?start = None then js ''Generate request failed. ''
         else js ''Edit request failed. '')
        @ (if ?details = [] then [] else js ''Details: '' @ truncate ?details 300)"
    using sent env by (rule handleSubmit_not_ok)
  moreover have "st_uploadFile ?start = None"
    by (simp add: onPromptChange_def mounted_def)
  moreover have "?details \<noteq> []"
    by simp
  ultimately show ?thesis
    by (simp add: t)
qed

lemma mounted_submit_regenerate:
  "st_history (fst (handleRegenerate (answering (Inr image_response))
      (onAnswersChange kv (fst (handleSubmit (answering (Inr image_response)) (mounted None)))))) =
    [\<lparr>data_url = js ''data:image/png;base64,QUJD'', prompt = composePrompt DEFAULT_ANSWERS False,
      answers = setKey kv DEFAULT_ANSWERS, timestamp = 1700000000000\<rparr>,
     \<lparr>data_url = js ''data:image/png;base64,QUJD'', prompt = composePrompt DEFAULT_ANSWERS False,
      answers = DEFAULT_ANSWERS, timestamp = 1700000000000\<rparr>]"
proof -
  let ?env = "answering (Inr image_response)"
  let ?changed = "onAnswersChange kv (fst (handleSubmit ?env (mounted None)))"
  let ?r = "\<lparr>route = ApiGenerate, payload = GeneratePayload (composePrompt DEFAULT_ANSWERS False)\<rparr>"
  have r: "st_lastRequest ?changed = Some ?r"
    by (simp add: onAnswersChange_fields mounted_submit)
  have env: "fetch ?env (post_json (route ?r) (payload ?r)) = Inr image_response"
    "res_ok image_response"
    "res_json image_response = Inr (Some (js ''data:image/png;base64,QUJD''))"
    "js ''data:image/png;base64,QUJD'' \<noteq> []"
    by (simp_all add: answering_def image_response_def js_def)
  have "st_history (fst (handleRegenerate ?env ?changed)) =
     \<lparr>data_url = js ''data:image/png;base64,QUJD'', prompt = payload_prompt (payload ?r),
      answers = st_answers ?changed, timestamp = now ?env\<rparr> # st_history ?changed"
    using r env by (rule handleRegenerate_history_success)
  then show ?thesis
    by (simp add: onAnswersChange_fields mounted_submit) (simp add: answering_def)
qed

text \<open>
  C10: the item a successful \<open>handleRegenerate\<close> puts in the history has the prompt of
  the remembered payload and the answers of the page at the regeneration. So there
  are runs (a submission of the prompt derived from the answers, one change of an
  answer, a regeneration) after which the newest item holds the prompt derived from
  the answers of the submission and answers that differ from them.
\<close>

theorem regenerate_item_answers:
  "(st_lastRequest s = Some r \<and> fetch env (post_json (route r) (payload r)) = Inr res \<and>
    res_ok res \<and> res_json res = Inr (Some u) \<and> u \<noteq> [] \<longrightarrow>
      st_history (fst (handleRegenerate env s)) =
        \<lparr>data_url = u, prompt = payload_prompt (payload r), answers = st_answers s,
         timestamp = now env\<rparr> # st_history s) \<and>
   (\<exists>env0 s0 kv item rest.
      st_uploadFile s0 = None \<and> st_prompt s0 = composePrompt (st_answers s0) False \<and>
      st_history (fst (handleRegenerate env0 (onAnswersChange kv (fst (handleSubmit env0 s0)))))
        = item # rest \<and>
      prompt item = composePrompt (st_answers s0) False \<and>
      answers item \<noteq> st_answers s0)"
proof (intro conjI impI)
  assume "st_lastRequest s = Some r \<and> fetch env (post_json (route r) (payload r)) = Inr res \<and>
    res_ok res \<and> res_json res = Inr (Some u) \<and> u \<noteq> []"
  then show "st_history (fst (handleRegenerate env s)) =
        \<lparr>data_url = u, prompt = payload_prompt (payload r), answers = st_answers s,
         timestamp = now env\<rparr> # st_history s"
    by (intro handleRegenerate_history_success) blast+
next
  let ?env = "answering (Inr image_response)"
  let ?item = "\<lparr>data_url = js ''data:image/png;base64,QUJD'',
      prompt = composePrompt DEFAULT_ANSWERS False,
      answers = setKey (Set_category Gaming) DEFAULT_ANSWERS, timestamp = 1700000000000\<rparr>"
  have "st_uploadFile (mounted None) = None \<and>
      st_prompt (mounted None) = composePrompt (st_answers (mounted None)) False \<and>
      st_answers (mounted None) = DEFAULT_ANSWERS"
    by (simp add: mounted_def)
  moreover have "setKey (Set_category Gaming) DEFAULT_ANSWERS \<noteq> DEFAULT_ANSWERS"
    by (simp add: DEFAULT_ANSWERS_def)
  ultimately show "\<exists>env0 s0 kv item rest.
      st_uploadFile s0 = None \<and> st_prompt s0 = composePrompt (st_answers s0) False \<and>
      st_history (fst (handleRegenerate env0 (onAnswersChange kv (fst (handleSubmit env0 s0)))))
        = item # rest \<and>
      prompt item = composePrompt (st_answers s0) False \<and>
      answers item \<noteq> st_answers s0"
    using mounted_submit_regenerate [of "Set_category Gaming"]
    by (intro exI [of _ ?env] exI [of _ "mounted None"] exI [of _ "Set_category Gaming"]
        exI [of _ ?item] exI) simp
qed

text \<open>
  The run above, with the category changed from Tech to Gaming before the
  regeneration: the newest item says Gaming in its answers and Tech in its prompt.
\<close>

theorem regenerate_item_answers_witness:
  "st_history (fst (handleRegenerate (answering (Inr image_response))
      (onAnswersChange (Set_category Gaming)
         (fst (handleSubmit (answering (Inr image_response)) (mounted None)))))) =
    [\<lparr>data_url = js ''data:image/png;base64,QUJD'',
      prompt = js ''Category: Tech. Style: Minimal. Colors/Vibe: Bright. No text overlay. 16:9 thumbnail composition, high contrast, no watermarks, suitable for social/YouTube.'',
      answers = DEFAULT_ANSWERS\<lparr>category := Gaming\<rparr>, timestamp = 1700000000000\<rparr>,
     \<lparr>data_url = js ''data:image/png;base64,QUJD'',
      prompt = js ''Category: Tech. Style: Minimal. Colors/Vibe: Bright. No text overlay. 16:9 thumbnail composition, high contrast, no watermarks, suitable for social/YouTube.'',
      answers = DEFAULT_ANSWERS, timestamp = 1700000000000\<rparr>]"
proof -
  let ?env = "answering (Inr image_response)"
  let ?changed = "onAnswersChange (Set_category Gaming) (fst (handleSubmit ?env (mounted None)))"
  let ?r = "\<lparr>route = ApiGenerate, payload = GeneratePayload (composePrompt DEFAULT_ANSWERS False)\<rparr>"
  have p: "composePrompt DEFAULT_ANSWERS False =
      js ''Category: Tech. Style: Minimal. Colors/Vibe: Bright. No text overlay. 16:9 thumbnail composition, high contrast, no watermarks, suitable for social/YouTube.''"
    by (simp add: composePrompt_def parts_def categoryText_def styleText_def vibeText_def
        overlay_def DEFAULT_ANSWERS_def js_def)
  have "st_lastRequest ?changed = Some ?r \<and>
      fetch ?env (post_json (route ?r) (payload ?r)) = Inr image_response \<and>
      res_ok image_response \<and>
      res_json image_response = Inr (Some (js ''data:image/png;base64,QUJD'')) \<and>
      js ''data:image/png;base64,QUJD'' \<noteq> []"
    by (simp add: onAnswersChange_fields mounted_submit)
      (simp add: answering_def image_response_def js_def)
  with regenerate_item_answers
    [of ?changed ?r ?env image_response "js ''data:image/png;base64,QUJD''"]
  have "st_history (fst (handleRegenerate ?env ?changed)) =
      \<lparr>data_url = js ''data:image/png;base64,QUJD'', prompt = payload_prompt (payload ?r),
       answers = st_answers ?changed, timestamp = now ?env\<rparr> # st_history ?changed"
    by blast
  then show ?thesis
    by (simp add: onAnswersChange_fields mounted_submit) (simp add: answering_def p)
qed

end
